theory Spec2Isabelle
  imports Main
begin

section \<open>Provider directory orchestrator: data model\<close>

text \<open>
  The development embeds \<^verbatim>\<open>orchestrator.py\<close> (the five workflow nodes, the conditional
  edge and the mock provider table) and the request handler of \<^verbatim>\<open>app.py\<close>.

  Python dictionaries are finite maps from keys to values. The provider dictionaries hold
  string values for the compared fields and an integer under the key \<^verbatim>\<open>id\<close>, so a value
  is either of the two. Strings are lists of 8-bit characters and are read as ASCII text:
  \<^verbatim>\<open>lower\<close>, \<^verbatim>\<open>strip\<close> and \<^verbatim>\<open>split\<close> below act on the ASCII letters and the ASCII
  white space of Python's \<^verbatim>\<open>str\<close>.
\<close>

datatype pyval = PStr string | PInt int

type_synonym pydict = "string \<rightharpoonup> pyval"

datatype status = pending | verified | flagged

record Discrepancy =
  field :: string
  db_value :: string
  scraped_value :: string

text \<open>
  \<^verbatim>\<open>AgentState\<close> is a dictionary with the six declared keys. The fetch node adds a seventh
  key, \<^verbatim>\<open>_expected_confidence\<close>, which the quality-assurance node tests with \<^verbatim>\<open>in\<close>:
  that key is an optional field here, \<open>None\<close> when the key is absent.
\<close>

record AgentState =
  provider_id :: int
  current_db_data :: pydict
  scraped_data :: pydict
  discrepancies :: "Discrepancy list"
  confidence_score :: int
  status :: status
  expected_confidence :: "int option"

subsection \<open>Python string operations\<close>

definition digit_char :: "nat \<Rightarrow> char" where
  "digit_char n = char_of (48 + n)"

fun nat_digits :: "nat \<Rightarrow> string" where
  "nat_digits n =
     (if n < 10 then [digit_char n] else nat_digits (n div 10) @ [digit_char (n mod 10)])"

declare nat_digits.simps [simp del]

definition str_int :: "int \<Rightarrow> string" where
  "str_int i = (if i < 0 then CHR ''-'' # nat_digits (nat (- i)) else nat_digits (nat i))"

text \<open>\<^verbatim>\<open>str(v)\<close>: a string is returned as it is, an integer in decimal.\<close>

fun py_str :: "pyval \<Rightarrow> string" where
  "py_str (PStr s) = s"
| "py_str (PInt i) = str_int i"

definition lower_char :: "char \<Rightarrow> char" where
  "lower_char c =
     (let n = (of_char c :: nat) in if 65 \<le> n \<and> n \<le> 90 then char_of (n + 32) else c)"

definition lower :: "string \<Rightarrow> string" where
  "lower s = map lower_char s"

text \<open>
  \<^verbatim>\<open>str.isspace\<close> on the ASCII range: tab, line feed, vertical tab, form feed, carriage
  return, the four separators 0x1C to 0x1F and the space.
\<close>

definition isspace :: "char \<Rightarrow> bool" where
  "isspace c = (let n = (of_char c :: nat) in (9 \<le> n \<and> n \<le> 13) \<or> (28 \<le> n \<and> n \<le> 32))"

definition strip :: "string \<Rightarrow> string" where
  "strip s = rev (dropWhile isspace (rev (dropWhile isspace s)))"

text \<open>
  \<^verbatim>\<open>s.split()\<close> without arguments: the maximal runs of characters that are not white
  space, in order. The first argument is the word being read.
\<close>

fun split_from :: "string \<Rightarrow> string \<Rightarrow> string list" where
  "split_from cur [] = (if cur = [] then [] else [cur])"
| "split_from cur (c # cs) =
     (if isspace c then (if cur = [] then split_from [] cs else cur # split_from [] cs)
      else split_from (cur @ [c]) cs)"

definition split :: "string \<Rightarrow> string list" where
  "split s = split_from [] s"

text \<open>\<^verbatim>\<open>s.startswith(p)\<close> and \<^verbatim>\<open>sub in s\<close> (a contiguous substring).\<close>

fun startswith :: "string \<Rightarrow> string \<Rightarrow> bool" where
  "startswith s [] = True"
| "startswith [] (p # ps) = False"
| "startswith (c # cs) (p # ps) = (c = p \<and> startswith cs ps)"

fun py_in :: "string \<Rightarrow> string \<Rightarrow> bool" where
  "py_in sub [] = (sub = [])"
| "py_in sub (c # cs) = (startswith (c # cs) sub \<or> py_in sub cs)"

text \<open>\<^verbatim>\<open>d.get(key, "")\<close>.\<close>

definition get_or_empty :: "pydict \<Rightarrow> string \<Rightarrow> pyval" where
  "get_or_empty d k = (case d k of Some v \<Rightarrow> v | None \<Rightarrow> PStr [])"

section \<open>Mock data providers\<close>

text \<open>
  An entry of the table is a dictionary with the keys \<^verbatim>\<open>db\<close>, \<^verbatim>\<open>scraped\<close> and
  \<^verbatim>\<open>confidence\<close>. The fetch node reads the last one with \<^verbatim>\<open>get("confidence", 75)\<close>, so
  it is optional here, although every entry below has it.
\<close>

record provider_entry =
  db :: pydict
  scraped :: pydict
  confidence :: "int option"

definition provider_1001 :: provider_entry where
  "provider_1001 =
     \<lparr>db = map_of
          [(''id'', PInt 1001),
           (''name'', PStr ''Dr. Rajesh Kumar''),
           (''specialty'', PStr ''Cardiology''),
           (''phone'', PStr ''+91-11-2658-3456''),
           (''address'', PStr ''A-123, Green Park''),
           (''city'', PStr ''New Delhi''),
           (''state'', PStr ''Delhi''),
           (''zip'', PStr ''110016''),
           (''license_number'', PStr ''MCI/DEL/12345/2010''),
           (''npi'', PStr ''9876543210'')],
      scraped = map_of
          [(''id'', PInt 1001),
           (''name'', PStr ''Dr. Rajesh Kumar''),
           (''specialty'', PStr ''Cardiology''),
           (''phone'', PStr ''+91-11-2658-3456''),
           (''address'', PStr ''A-123, Green Park''),
           (''city'', PStr ''New Delhi''),
           (''state'', PStr ''Delhi''),
           (''zip'', PStr ''110016''),
           (''license_number'', PStr ''MCI/DEL/12345/2010''),
           (''npi'', PStr ''9876543210'')],
      confidence = Some 85\<rparr>"

definition provider_1002 :: provider_entry where
  "provider_1002 =
     \<lparr>db = map_of
          [(''id'', PInt 1002),
           (''name'', PStr ''Dr. Priya Sharma''),
           (''specialty'', PStr ''Pediatrics''),
           (''phone'', PStr ''+91-22-2645-7890''),
           (''address'', PStr ''B-456, Bandra West''),
           (''city'', PStr ''Mumbai''),
           (''state'', PStr ''Maharashtra''),
           (''zip'', PStr ''400050''),
           (''license_number'', PStr ''MCI/MAH/23456/2012''),
           (''npi'', PStr ''8765432109'')],
      scraped = map_of
          [(''id'', PInt 1002),
           (''name'', PStr ''Dr. Priya Sharma''),
           (''specialty'', PStr ''Pediatrics''),
           (''phone'', PStr ''+91-22-2645-7890''),
           (''address'', PStr ''B-456, Bandra West''),
           (''city'', PStr ''Mumbai''),
           (''state'', PStr ''Maharashtra''),
           (''zip'', PStr ''400050''),
           (''license_number'', PStr ''MCI/MAH/23456/2012''),
           (''npi'', PStr ''8765432109'')],
      confidence = Some 92\<rparr>"

definition provider_1003 :: provider_entry where
  "provider_1003 =
     \<lparr>db = map_of
          [(''id'', PInt 1003),
           (''name'', PStr ''Dr. Amit Patel''),
           (''specialty'', PStr ''Orthopedics''),
           (''phone'', PStr ''+91-79-2658-1234''),
           (''address'', PStr ''C-789, Satellite''),
           (''city'', PStr ''Ahmedabad''),
           (''state'', PStr ''Gujarat''),
           (''zip'', PStr ''380015''),
           (''license_number'', PStr ''MCI/GUJ/34567/2015''),
           (''npi'', PStr ''7654321098'')],
      scraped = map_of
          [(''id'', PInt 1003),
           (''name'', PStr ''Dr. Amit Patel''),
           (''specialty'', PStr ''Orthopedics''),
           (''phone'', PStr ''+91-79-2658-1234''),
           (''address'', PStr ''C-789, Satellite Area''),
           (''city'', PStr ''Ahmedabad''),
           (''state'', PStr ''Gujarat''),
           (''zip'', PStr ''380015''),
           (''license_number'', PStr ''MCI/GUJ/34567/2015''),
           (''npi'', PStr ''7654321098'')],
      confidence = Some 88\<rparr>"

definition provider_2001 :: provider_entry where
  "provider_2001 =
     \<lparr>db = map_of
          [(''id'', PInt 2001),
           (''name'', PStr ''Dr. Anjali Reddy''),
           (''specialty'', PStr ''Dermatology''),
           (''phone'', PStr ''+91-40-2789-4567''),
           (''address'', PStr ''D-321, Banjara Hills''),
           (''city'', PStr ''Hyderabad''),
           (''state'', PStr ''Telangana''),
           (''zip'', PStr ''500034''),
           (''license_number'', PStr ''MCI/TEL/45678/2011''),
           (''npi'', PStr ''6543210987'')],
      scraped = map_of
          [(''id'', PInt 2001),
           (''name'', PStr ''Dr. Anjali Reddy''),
           (''specialty'', PStr ''Dermatology''),
           (''phone'', PStr ''+91-40-2789-4568''),
           (''address'', PStr ''D-321, Banjara Hills''),
           (''city'', PStr ''Hyderabad''),
           (''state'', PStr ''Telangana''),
           (''zip'', PStr ''500034''),
           (''license_number'', PStr ''MCI/TEL/45678/2011''),
           (''npi'', PStr ''6543210987'')],
      confidence = Some 78\<rparr>"

definition provider_2002 :: provider_entry where
  "provider_2002 =
     \<lparr>db = map_of
          [(''id'', PInt 2002),
           (''name'', PStr ''Dr. Vikram Singh''),
           (''specialty'', PStr ''Neurology''),
           (''phone'', PStr ''+91-80-2558-9876''),
           (''address'', PStr ''E-654, Koramangala''),
           (''city'', PStr ''Bangalore''),
           (''state'', PStr ''Karnataka''),
           (''zip'', PStr ''560095''),
           (''license_number'', PStr ''MCI/KAR/56789/2013''),
           (''npi'', PStr ''5432109876'')],
      scraped = map_of
          [(''id'', PInt 2002),
           (''name'', PStr ''Dr. Vikram Singh''),
           (''specialty'', PStr ''Neurology''),
           (''phone'', PStr ''+91-80-2558-9876''),
           (''address'', PStr ''E-654, Koramangala 5th Block''),
           (''city'', PStr ''Bangalore''),
           (''state'', PStr ''Karnataka''),
           (''zip'', PStr ''560095''),
           (''license_number'', PStr ''MCI/KAR/56789/2013''),
           (''npi'', PStr ''5432109876'')],
      confidence = Some 75\<rparr>"

definition provider_3001 :: provider_entry where
  "provider_3001 =
     \<lparr>db = map_of
          [(''id'', PInt 3001),
           (''name'', PStr ''Dr. Meera Nair''),
           (''specialty'', PStr ''Gynecology''),
           (''phone'', PStr ''+91-44-2845-2345''),
           (''address'', PStr ''F-987, T. Nagar''),
           (''city'', PStr ''Chennai''),
           (''state'', PStr ''Tamil Nadu''),
           (''zip'', PStr ''600017''),
           (''license_number'', PStr ''MCI/TN/67890/2014''),
           (''npi'', PStr ''4321098765'')],
      scraped = map_of
          [(''id'', PInt 3001),
           (''name'', PStr ''Dr. Meera Nair''),
           (''specialty'', PStr ''Gynecology''),
           (''phone'', PStr ''+91-44-2845-2346''),
           (''address'', PStr ''F-987, Thyagaraya Nagar''),
           (''city'', PStr ''Chennai''),
           (''state'', PStr ''Tamil Nadu''),
           (''zip'', PStr ''600017''),
           (''license_number'', PStr ''MCI/TN/67890/2014''),
           (''npi'', PStr ''4321098765'')],
      confidence = Some 65\<rparr>"

definition provider_3002 :: provider_entry where
  "provider_3002 =
     \<lparr>db = map_of
          [(''id'', PInt 3002),
           (''name'', PStr ''Dr. Ravi Iyer''),
           (''specialty'', PStr ''Oncology''),
           (''phone'', PStr ''+91-33-2445-6789''),
           (''address'', PStr ''G-147, Salt Lake''),
           (''city'', PStr ''Kolkata''),
           (''state'', PStr ''West Bengal''),
           (''zip'', PStr ''700064''),
           (''license_number'', PStr ''MCI/WB/78901/2016''),
           (''npi'', PStr ''3210987654'')],
      scraped = map_of
          [(''id'', PInt 3002),
           (''name'', PStr ''Dr. Ravi Iyer''),
           (''specialty'', PStr ''Oncology''),
           (''phone'', PStr ''+91-33-2445-6790''),
           (''address'', PStr ''G-147, Salt Lake City''),
           (''city'', PStr ''Kolkata''),
           (''state'', PStr ''West Bengal''),
           (''zip'', PStr ''700064''),
           (''license_number'', PStr ''MCI/WB/78901/2016''),
           (''npi'', PStr ''3210987654'')],
      confidence = Some 68\<rparr>"

definition provider_4001 :: provider_entry where
  "provider_4001 =
     \<lparr>db = map_of
          [(''id'', PInt 4001),
           (''name'', PStr ''Dr. Kavita Desai''),
           (''specialty'', PStr ''Endocrinology''),
           (''phone'', PStr ''+91-20-2558-3456''),
           (''address'', PStr ''H-258, Koregaon Park''),
           (''city'', PStr ''Pune''),
           (''state'', PStr ''Maharashtra''),
           (''zip'', PStr ''411001''),
           (''license_number'', PStr ''MCI/MAH/89012/2017''),
           (''npi'', PStr ''2109876543'')],
      scraped = map_of
          [(''id'', PInt 4001),
           (''name'', PStr ''Dr. Kavita Desai''),
           (''specialty'', PStr ''Endocrinology''),
           (''phone'', PStr ''+91-20-2558-3456''),
           (''address'', PStr ''H-258, Koregaon Park''),
           (''city'', PStr ''Pune''),
           (''state'', PStr ''Maharashtra''),
           (''zip'', PStr ''411001''),
           (''license_number'', PStr ''MCI/MAH/89012/2017''),
           (''npi'', PStr ''2109876543'')],
      confidence = Some 90\<rparr>"

definition providers :: "(int \<times> provider_entry) list" where
  "providers =
     [(1001, provider_1001),
      (1002, provider_1002),
      (1003, provider_1003),
      (2001, provider_2001),
      (2002, provider_2002),
      (3001, provider_3001),
      (3002, provider_3002),
      (4001, provider_4001)]"

text \<open>The entry returned for an identifier that is not in the table.\<close>

definition default_provider :: "int \<Rightarrow> provider_entry" where
  "default_provider pid =
     \<lparr>db = map_of
          [(''id'', PInt pid),
           (''name'', PStr ''Dr. Arjun Mehta''),
           (''specialty'', PStr ''General Medicine''),
           (''phone'', PStr ''+91-11-2658-3456''),
           (''address'', PStr ''I-369, Connaught Place''),
           (''city'', PStr ''New Delhi''),
           (''state'', PStr ''Delhi''),
           (''zip'', PStr ''110001''),
           (''license_number'', PStr ''MCI/DEL/90123/2018''),
           (''npi'', PStr ''1098765432'')],
      scraped = map_of
          [(''id'', PInt pid),
           (''name'', PStr ''Dr. Arjun Mehta''),
           (''specialty'', PStr ''General Medicine''),
           (''phone'', PStr ''+91-11-2658-3457''),
           (''address'', PStr ''I-369, Connaught Place''),
           (''city'', PStr ''New Delhi''),
           (''state'', PStr ''Delhi''),
           (''zip'', PStr ''110001''),
           (''license_number'', PStr ''MCI/DEL/90123/2018''),
           (''npi'', PStr ''1098765432'')],
      confidence = Some 75\<rparr>"

definition get_mock_provider_data :: "int \<Rightarrow> provider_entry" where
  "get_mock_provider_data pid =
     (case map_of providers pid of Some entry \<Rightarrow> entry | None \<Rightarrow> default_provider pid)"

section \<open>The workflow nodes\<close>

subsection \<open>Fetch and scrape\<close>

definition fetch_provider_node :: "AgentState \<Rightarrow> AgentState" where
  "fetch_provider_node state =
     (let provider_data = get_mock_provider_data (provider_id state);
          mock_db_data = db provider_data
      in state\<lparr>expected_confidence :=
                  Some (case confidence provider_data of Some c \<Rightarrow> c | None \<Rightarrow> 75),
               current_db_data := mock_db_data,
               status := pending\<rparr>)"

definition scrape_web_node :: "AgentState \<Rightarrow> AgentState" where
  "scrape_web_node state =
     (let provider_data = get_mock_provider_data (provider_id state);
          mock_scraped_data = scraped provider_data
      in state\<lparr>scraped_data := mock_scraped_data, discrepancies := []\<rparr>)"

subsection \<open>Quality assurance\<close>

definition fields_to_compare :: "string list" where
  "fields_to_compare =
     [''name'', ''specialty'', ''phone'', ''address'', ''city'', ''state'', ''zip'',
      ''license_number'', ''npi'']"

definition normalize_value :: "pyval \<Rightarrow> string" where
  "normalize_value v = strip (lower (py_str v))"

text \<open>
  The test of the inner \<^verbatim>\<open>if\<close>. Python reads \<^verbatim>\<open>a or b or c and d\<close> as
  \<^verbatim>\<open>a or b or (c and d)\<close>. The lengths are Python integers, so the subtraction is on
  \<open>int\<close>.
\<close>

definition is_minor_variation :: "string \<Rightarrow> string \<Rightarrow> string \<Rightarrow> bool" where
  "is_minor_variation fld db_normalized scraped_normalized =
     (py_in db_normalized scraped_normalized \<or>
      py_in scraped_normalized db_normalized \<or>
      (fld = ''address'' \<and>
       int (length (split db_normalized)) = int (length (split scraped_normalized)) - 1))"

text \<open>One pass of the loop body: the discrepancies it appends for one field.\<close>

definition compare_field :: "pydict \<Rightarrow> pydict \<Rightarrow> string \<Rightarrow> Discrepancy list" where
  "compare_field db_data scraped_d fld =
     (let db_v = get_or_empty db_data fld;
          scraped_v = get_or_empty scraped_d fld;
          db_normalized = normalize_value db_v;
          scraped_normalized = normalize_value scraped_v
      in if db_normalized \<noteq> scraped_normalized
         then (if \<not> is_minor_variation fld db_normalized scraped_normalized
               then [\<lparr>field = fld, db_value = py_str db_v, scraped_value = py_str scraped_v\<rparr>]
               else [])
         else [])"

text \<open>The \<^verbatim>\<open>for\<close> loop over the fields, with the list built so far.\<close>

fun compare_fields :: "pydict \<Rightarrow> pydict \<Rightarrow> string list \<Rightarrow> Discrepancy list \<Rightarrow> Discrepancy list" where
  "compare_fields db_data scraped_d [] acc = acc"
| "compare_fields db_data scraped_d (fld # flds) acc =
     compare_fields db_data scraped_d flds (acc @ compare_field db_data scraped_d fld)"

definition find_discrepancies :: "pydict \<Rightarrow> pydict \<Rightarrow> Discrepancy list" where
  "find_discrepancies db_data scraped_d = compare_fields db_data scraped_d fields_to_compare []"

text \<open>The score: the stored baseline when the key is present, the fallback otherwise.\<close>

definition compute_confidence :: "int option \<Rightarrow> Discrepancy list \<Rightarrow> int" where
  "compute_confidence expected ds =
     (case expected of
        Some baseline \<Rightarrow>
          (if int (length ds) > 0 then max 0 (baseline - int (length ds) * 5) else baseline)
      | None \<Rightarrow>
          (let discrepancy_count = int (length ds)
           in if discrepancy_count = 0 then 95
              else if discrepancy_count = 1 then 75
              else max 0 (100 - discrepancy_count * 20)))"

definition quality_assurance_node :: "AgentState \<Rightarrow> AgentState" where
  "quality_assurance_node state =
     (let ds = find_discrepancies (current_db_data state) (scraped_data state);
          score = compute_confidence (expected_confidence state) ds
      in state\<lparr>discrepancies := ds, confidence_score := score\<rparr>)"

subsection \<open>The terminal nodes and the conditional edge\<close>

definition update_db_node :: "AgentState \<Rightarrow> AgentState" where
  "update_db_node state = state\<lparr>status := verified\<rparr>"

definition flag_review_node :: "AgentState \<Rightarrow> AgentState" where
  "flag_review_node state = state\<lparr>status := flagged\<rparr>"

definition should_update_db :: "AgentState \<Rightarrow> string" where
  "should_update_db state =
     (if confidence_score state > 80 then ''update_db'' else ''flag_review'')"

text \<open>
  The conditional edge after the quality-assurance node: the name returned by
  \<open>should_update_db\<close> selects the node that runs next.
\<close>

definition route :: "AgentState \<Rightarrow> AgentState" where
  "route state =
     (if should_update_db state = ''update_db'' then update_db_node state
      else flag_review_node state)"

section \<open>The graph and the request handler\<close>

text \<open>
  \<^verbatim>\<open>create_workflow_graph\<close> builds the graph as \<^verbatim>\<open>StateGraph(AgentState)\<close>: the state
  of the graph is made of the six keys that \<^verbatim>\<open>AgentState\<close> declares. A node is called
  with a dictionary of these keys, and of the dictionary it returns these keys are written
  back to the state. A key outside the declaration that a node adds to its dictionary, as
  \<^verbatim>\<open>_expected_confidence\<close>, is therefore not in the dictionary the next node is called
  with. The graph library is not among the embedded sources; \<open>declared_keys\<close> is this
  handling of the state, the restriction of a dictionary to the declared keys.
\<close>

definition declared_keys :: "AgentState \<Rightarrow> AgentState" where
  "declared_keys state = state\<lparr>expected_confidence := None\<rparr>"

text \<open>
  The nodes are wired in a line: the entry point is the fetch node, then the scrape node,
  then quality assurance, then the node selected by the conditional edge, which ends the
  run. The first component of the result lists the nodes that ran, the second is the final
  state.
\<close>

definition invoke :: "AgentState \<Rightarrow> string list \<times> AgentState" where
  "invoke initial_state =
     (let s1 = declared_keys (fetch_provider_node (declared_keys initial_state));
          s2 = declared_keys (scrape_web_node s1);
          s3 = declared_keys (quality_assurance_node s2)
      in ([''fetch_provider'', ''scrape_web'', ''quality_assurance'', should_update_db s3],
          declared_keys (route s3)))"

datatype http_exception = HTTPException int string

definition status_str :: "status \<Rightarrow> string" where
  "status_str st = (case st of pending \<Rightarrow> ''pending'' | verified \<Rightarrow> ''verified''
                    | flagged \<Rightarrow> ''flagged'')"

record WorkflowResponse =
  success :: bool
  resp_provider_id :: int
  resp_status :: string
  resp_confidence_score :: int
  resp_current_db_data :: pydict
  resp_scraped_data :: pydict
  resp_discrepancies :: "Discrepancy list"
  workflow_steps :: "string list"
  message :: string

definition make_initial_state :: "int \<Rightarrow> AgentState" where
  "make_initial_state pid =
     \<lparr>provider_id = pid, current_db_data = Map.empty, scraped_data = Map.empty,
      discrepancies = [], confidence_score = 0, status = pending,
      expected_confidence = None\<rparr>"

text \<open>
  The handler of \<^verbatim>\<open>POST /api/validate\<close>. The request model types the identifier as an
  integer. The result is the exception raised or the response returned, paired with the
  list of graph nodes that ran while the request was handled (empty when the graph was not
  invoked). No node raises on the state built here, so the handler's \<^verbatim>\<open>except\<close> branch
  (status 500) has no counterpart.
\<close>

definition validate_provider :: "int \<Rightarrow> string list \<times> (http_exception + WorkflowResponse)" where
  "validate_provider pid =
     (if pid \<le> 0 then ([], Inl (HTTPException 400 ''Provider ID must be a positive integer''))
      else
        (let initial_state = make_initial_state pid;
             (ran, final_state) = invoke initial_state;
             steps = (if confidence_score final_state > 80
                      then [''fetch_provider'', ''scrape_web'', ''quality_assurance'', ''update_db'']
                      else [''fetch_provider'', ''scrape_web'', ''quality_assurance'', ''flag_review'']);
             msg = (if status final_state = verified
                    then ''Provider '' @ str_int pid @
                         '' has been verified and updated in the database.''
                    else ''Provider '' @ str_int pid @
                         '' has been flagged for human review due to data discrepancies.'')
         in (ran,
             Inr \<lparr>success = True,
                  resp_provider_id = provider_id final_state,
                  resp_status = status_str (status final_state),
                  resp_confidence_score = confidence_score final_state,
                  resp_current_db_data = current_db_data final_state,
                  resp_scraped_data = scraped_data final_state,
                  resp_discrepancies = discrepancies final_state,
                  workflow_steps = steps,
                  message = msg\<rparr>)))"

section \<open>Properties of the string operations and of the comparison loop\<close>

lemma startswith_iff: "startswith s p \<longleftrightarrow> (\<exists>ss. s = p @ ss)"
  by (induction s p rule: startswith.induct) auto

lemma py_in_Nil: "py_in [] s"
  by (cases s) simp_all

text \<open>\<open>py_in\<close> is containment as a contiguous substring.\<close>

lemma py_in_iff: "py_in sub s \<longleftrightarrow> (\<exists>ps ss. s = ps @ sub @ ss)"
proof (induction s)
  case Nil
  then show ?case by auto
next
  case (Cons c cs)
  show ?case
  proof
    assume "py_in sub (c # cs)"
    then consider "startswith (c # cs) sub" | "py_in sub cs" by auto
    then show "\<exists>ps ss. c # cs = ps @ sub @ ss"
    proof cases
      case 1
      then obtain ss where "c # cs = sub @ ss" by (auto simp: startswith_iff)
      then have "c # cs = [] @ sub @ ss" by simp
      then show ?thesis by blast
    next
      case 2
      then obtain ps ss where "cs = ps @ sub @ ss" using Cons.IH by auto
      then have "c # cs = (c # ps) @ sub @ ss" by simp
      then show ?thesis by blast
    qed
  next
    assume "\<exists>ps ss. c # cs = ps @ sub @ ss"
    then obtain ps ss where eq: "c # cs = ps @ sub @ ss" by blast
    show "py_in sub (c # cs)"
    proof (cases ps)
      case Nil
      with eq have "startswith (c # cs) sub" by (auto simp: startswith_iff)
      then show ?thesis by simp
    next
      case (Cons p ps')
      with eq have "cs = ps' @ sub @ ss" by simp
      then have "py_in sub cs" using Cons.IH by blast
      then show ?thesis by simp
    qed
  qed
qed

lemma compare_fields_acc:
  "compare_fields db_data scraped_d flds acc =
     acc @ concat (map (compare_field db_data scraped_d) flds)"
  by (induction flds arbitrary: acc) simp_all

lemma find_discrepancies_concat:
  "find_discrepancies db_data scraped_d =
     concat (map (compare_field db_data scraped_d) fields_to_compare)"
  by (simp add: find_discrepancies_def compare_fields_acc)

lemma compare_field_field:
  "d \<in> set (compare_field db_data scraped_d fld) \<Longrightarrow> field d = fld"
  by (auto simp: compare_field_def Let_def split: if_splits)

lemma compare_field_Nil_iff:
  "compare_field db_data scraped_d fld = [] \<longleftrightarrow>
     normalize_value (get_or_empty db_data fld) = normalize_value (get_or_empty scraped_d fld) \<or>
     is_minor_variation fld (normalize_value (get_or_empty db_data fld))
       (normalize_value (get_or_empty scraped_d fld))"
  by (simp add: compare_field_def Let_def)

text \<open>A field has a discrepancy in the result exactly when its own pass of the loop
  appended one.\<close>

lemma discrepancy_field_iff:
  "fld \<in> field ` set (find_discrepancies db_data scraped_d) \<longleftrightarrow>
     fld \<in> set fields_to_compare \<and> compare_field db_data scraped_d fld \<noteq> []"
proof
  assume "fld \<in> field ` set (find_discrepancies db_data scraped_d)"
  then obtain d g where g: "g \<in> set fields_to_compare"
      and d: "d \<in> set (compare_field db_data scraped_d g)" and f: "field d = fld"
    by (auto simp: find_discrepancies_concat)
  from d have "field d = g" by (rule compare_field_field)
  with f g d show "fld \<in> set fields_to_compare \<and> compare_field db_data scraped_d fld \<noteq> []"
    by auto
next
  assume a: "fld \<in> set fields_to_compare \<and> compare_field db_data scraped_d fld \<noteq> []"
  then obtain d where d: "d \<in> set (compare_field db_data scraped_d fld)"
    by (cases "compare_field db_data scraped_d fld") auto
  then have "field d = fld" by (rule compare_field_field)
  moreover from a d have "d \<in> set (find_discrepancies db_data scraped_d)"
    by (auto simp: find_discrepancies_concat)
  ultimately show "fld \<in> field ` set (find_discrepancies db_data scraped_d)" by force
qed

lemma no_discrepancy_for:
  "compare_field db_data scraped_d fld = [] \<Longrightarrow>
     fld \<notin> field ` set (find_discrepancies db_data scraped_d)"
  by (simp add: discrepancy_field_iff)

lemma identical_no_discrepancies: "find_discrepancies r r = []"
  by (simp add: find_discrepancies_concat compare_field_def Let_def)

lemma qa_discrepancies:
  "discrepancies (quality_assurance_node s) =
     find_discrepancies (current_db_data s) (scraped_data s)"
  by (simp add: quality_assurance_node_def Let_def)

lemma qa_confidence:
  "confidence_score (quality_assurance_node s) =
     compute_confidence (expected_confidence s)
       (find_discrepancies (current_db_data s) (scraped_data s))"
  by (simp add: quality_assurance_node_def Let_def)

lemma route_status:
  "status (route s) = (if confidence_score s > 80 then verified else flagged)"
  by (simp add: route_def should_update_db_def update_db_node_def flag_review_node_def)

lemma route_confidence: "confidence_score (route s) = confidence_score s"
  by (simp add: route_def update_db_node_def flag_review_node_def)

lemma route_discrepancies: "discrepancies (route s) = discrepancies s"
  by (simp add: route_def update_db_node_def flag_review_node_def)

text \<open>The baseline the table holds for each identifier.\<close>

lemma mock_confidence:
  "confidence (get_mock_provider_data pid) =
     Some (if pid = 1001 then 85 else if pid = 1002 then 92 else if pid = 1003 then 88
           else if pid = 2001 then 78 else if pid = 2002 then 75 else if pid = 3001 then 65
           else if pid = 3002 then 68 else if pid = 4001 then 90 else 75)"
  by (simp add: get_mock_provider_data_def providers_def default_provider_def
      provider_1001_def provider_1002_def provider_1003_def provider_2001_def
      provider_2002_def provider_3001_def provider_3002_def provider_4001_def)

lemma phone_example:
  "find_discrepancies [''phone'' \<mapsto> PStr ''+91-11-2658-3456'']
     [''phone'' \<mapsto> PStr ''+91-11-2658-3457''] =
   [\<lparr>field = ''phone'', db_value = ''+91-11-2658-3456'',
     scraped_value = ''+91-11-2658-3457''\<rparr>]"
  by code_simp

section \<open>The router\<close>

text \<open>
  C1. The outcome after quality assurance is a function of the confidence score alone:
  the run ends in \<open>verified\<close> exactly when the score is greater than 80 and in
  \<open>flagged\<close> otherwise, for every integer score. A score of 81 gives \<open>verified\<close>, 80 and
  0 give \<open>flagged\<close>.
\<close>

theorem route_threshold:
  "status (route s) = (if confidence_score s > 80 then verified else flagged) \<and>
   should_update_db s = (if confidence_score s > 80 then ''update_db'' else ''flag_review'') \<and>
   route s = s\<lparr>status := (if confidence_score s > 80 then verified else flagged)\<rparr> \<and>
   status (route (s\<lparr>confidence_score := 81\<rparr>)) = verified \<and>
   status (route (s\<lparr>confidence_score := 80\<rparr>)) = flagged \<and>
   status (route (s\<lparr>confidence_score := 0\<rparr>)) = flagged"
  by (simp add: route_def should_update_db_def update_db_node_def flag_review_node_def)

section \<open>The confidence score\<close>

text \<open>
  C2. With a baseline \<open>b\<close> in the state, the score is \<open>b\<close> when no discrepancy was
  recorded and \<open>max 0 (b - 5 * n)\<close> for \<open>n > 0\<close> recorded discrepancies; for a baseline
  that is not negative the two cases are the one formula \<open>max 0 (b - 5 * n)\<close>.
\<close>

theorem baseline_confidence:
  "let s' = quality_assurance_node (s\<lparr>expected_confidence := Some b\<rparr>);
       n = int (length (discrepancies s'))
   in confidence_score s' = (if n = 0 then b else max 0 (b - 5 * n)) \<and>
      (0 \<le> b \<longrightarrow> confidence_score s' = max 0 (b - 5 * n))"
  by (simp add: qa_confidence qa_discrepancies compute_confidence_def Let_def mult.commute)

theorem baseline_confidence_witness:
  "(0::int) \<le> 78 \<and>
   length (discrepancies (quality_assurance_node
     ((make_initial_state 2001)
        \<lparr>current_db_data := [''phone'' \<mapsto> PStr ''+91-11-2658-3456''],
         scraped_data := [''phone'' \<mapsto> PStr ''+91-11-2658-3457''],
         expected_confidence := Some 78\<rparr>))) = 1 \<and>
   confidence_score (quality_assurance_node
     ((make_initial_state 2001)
        \<lparr>current_db_data := [''phone'' \<mapsto> PStr ''+91-11-2658-3456''],
         scraped_data := [''phone'' \<mapsto> PStr ''+91-11-2658-3457''],
         expected_confidence := Some 78\<rparr>)) = 73"
  using baseline_confidence [where b = 78 and s = "(make_initial_state 2001)
        \<lparr>current_db_data := [''phone'' \<mapsto> PStr ''+91-11-2658-3456''],
         scraped_data := [''phone'' \<mapsto> PStr ''+91-11-2658-3457'']\<rparr>"]
  by (simp add: Let_def qa_discrepancies phone_example)

text \<open>
  C3. Without a baseline in the state the score depends on the number \<open>n\<close> of recorded
  discrepancies only: 95 for none, 75 for one, \<open>max 0 (100 - 20 * n)\<close> from two on. The
  two phone numbers of the example differ in one field, which gives 75 and \<open>flagged\<close>;
  a record compared with itself gives no discrepancy, 95 and \<open>verified\<close>.
\<close>

theorem fallback_confidence:
  "(let s' = quality_assurance_node (s\<lparr>expected_confidence := None\<rparr>);
        n = int (length (discrepancies s'))
    in confidence_score s' =
         (if n = 0 then 95 else if n = 1 then 75 else max 0 (100 - 20 * n))) \<and>
   (let s' = quality_assurance_node
               (s\<lparr>current_db_data := [''phone'' \<mapsto> PStr ''+91-11-2658-3456''],
                  scraped_data := [''phone'' \<mapsto> PStr ''+91-11-2658-3457''],
                  expected_confidence := None\<rparr>)
    in map field (discrepancies s') = [''phone''] \<and> confidence_score s' = 75 \<and>
       status (route s') = flagged) \<and>
   (let s' = quality_assurance_node
               (s\<lparr>current_db_data := r, scraped_data := r, expected_confidence := None\<rparr>)
    in discrepancies s' = [] \<and> confidence_score s' = 95 \<and> status (route s') = verified)"
  by (simp add: qa_confidence qa_discrepancies compute_confidence_def Let_def mult.commute
      phone_example identical_no_discrepancies route_status)

text \<open>
  C4, as stated: whatever the baseline in the state, the score lies between 0 and 100.
  The baseline is passed through when no discrepancy is recorded and is only floored at 0
  otherwise, so a baseline of 150 on two empty records gives the score 150.
\<close>

theorem confidence_range_counterexample:
  "\<not> (0 \<le> confidence_score (quality_assurance_node
            ((make_initial_state 1)\<lparr>expected_confidence := Some 150\<rparr>)) \<and>
       confidence_score (quality_assurance_node
            ((make_initial_state 1)\<lparr>expected_confidence := Some 150\<rparr>)) \<le> 100)"
  by (simp add: qa_confidence compute_confidence_def make_initial_state_def
      identical_no_discrepancies)

text \<open>
  C4, amended: for every pair of records, when the state holds no baseline or a baseline
  that itself lies between 0 and 100, the score lies between 0 and 100.
\<close>

theorem confidence_range:
  assumes "case expected_confidence s of None \<Rightarrow> True | Some b \<Rightarrow> 0 \<le> b \<and> b \<le> 100"
  shows "0 \<le> confidence_score (quality_assurance_node s) \<and>
         confidence_score (quality_assurance_node s) \<le> 100"
proof (cases "expected_confidence s")
  case None
  then show ?thesis
    by (simp add: qa_confidence compute_confidence_def Let_def)
next
  case (Some b)
  with assms have "0 \<le> b" and "b \<le> 100" by auto
  with Some show ?thesis
    by (auto simp: qa_confidence compute_confidence_def Let_def)
qed

theorem confidence_range_witness:
  "expected_confidence
     ((make_initial_state 2001)
        \<lparr>current_db_data := [''phone'' \<mapsto> PStr ''+91-11-2658-3456''],
         scraped_data := [''phone'' \<mapsto> PStr ''+91-11-2658-3457''],
         expected_confidence := Some 3\<rparr>) = Some 3 \<and>
   0 \<le> confidence_score (quality_assurance_node
          ((make_initial_state 2001)
             \<lparr>current_db_data := [''phone'' \<mapsto> PStr ''+91-11-2658-3456''],
              scraped_data := [''phone'' \<mapsto> PStr ''+91-11-2658-3457''],
              expected_confidence := Some 3\<rparr>)) \<and>
   confidence_score (quality_assurance_node
          ((make_initial_state 2001)
             \<lparr>current_db_data := [''phone'' \<mapsto> PStr ''+91-11-2658-3456''],
              scraped_data := [''phone'' \<mapsto> PStr ''+91-11-2658-3457''],
              expected_confidence := Some 3\<rparr>)) \<le> 100"
proof -
  let ?s = "(make_initial_state 2001)
             \<lparr>current_db_data := [''phone'' \<mapsto> PStr ''+91-11-2658-3456''],
              scraped_data := [''phone'' \<mapsto> PStr ''+91-11-2658-3457''],
              expected_confidence := Some 3\<rparr>"
  have e: "expected_confidence ?s = Some 3" by simp
  have h: "case expected_confidence ?s of None \<Rightarrow> True | Some b \<Rightarrow> 0 \<le> b \<and> b \<le> 100"
    by simp
  from confidence_range [OF h] e show ?thesis by blast
qed

section \<open>The field comparison\<close>

text \<open>
  C5. For every pair of records and every field, if the two values of the field are equal
  after normalization (\<^verbatim>\<open>str\<close>, \<^verbatim>\<open>lower\<close>, \<^verbatim>\<open>strip\<close>), the result holds no
  discrepancy for that field.
\<close>

theorem normalized_equal_no_discrepancy:
  assumes "normalize_value (get_or_empty (current_db_data s) fld) =
           normalize_value (get_or_empty (scraped_data s) fld)"
  shows "fld \<notin> field ` set (discrepancies (quality_assurance_node s))"
  using assms by (simp add: qa_discrepancies no_discrepancy_for compare_field_Nil_iff)

theorem normalized_equal_no_discrepancy_witness:
  "normalize_value (get_or_empty (current_db_data
       ((make_initial_state 1003)
          \<lparr>current_db_data := [''name'' \<mapsto> PStr ''Dr. Amit Patel'', ''zip'' \<mapsto> PInt 380015],
           scraped_data := [''name'' \<mapsto> PStr ''  DR. Amit PATEL '', ''zip'' \<mapsto> PStr ''380016'']\<rparr>))
       ''name'') =
   normalize_value (get_or_empty (scraped_data
       ((make_initial_state 1003)
          \<lparr>current_db_data := [''name'' \<mapsto> PStr ''Dr. Amit Patel'', ''zip'' \<mapsto> PInt 380015],
           scraped_data := [''name'' \<mapsto> PStr ''  DR. Amit PATEL '', ''zip'' \<mapsto> PStr ''380016'']\<rparr>))
       ''name'') \<and>
   ''name'' \<notin> field ` set (discrepancies (quality_assurance_node
       ((make_initial_state 1003)
          \<lparr>current_db_data := [''name'' \<mapsto> PStr ''Dr. Amit Patel'', ''zip'' \<mapsto> PInt 380015],
           scraped_data := [''name'' \<mapsto> PStr ''  DR. Amit PATEL '', ''zip'' \<mapsto> PStr ''380016'']\<rparr>)))"
proof -
  let ?s = "(make_initial_state 1003)
          \<lparr>current_db_data := [''name'' \<mapsto> PStr ''Dr. Amit Patel'', ''zip'' \<mapsto> PInt 380015],
           scraped_data := [''name'' \<mapsto> PStr ''  DR. Amit PATEL '', ''zip'' \<mapsto> PStr ''380016'']\<rparr>"
  have h: "normalize_value (get_or_empty (current_db_data ?s) ''name'') =
           normalize_value (get_or_empty (scraped_data ?s) ''name'')"
    by code_simp
  from normalized_equal_no_discrepancy [OF h] h show ?thesis by blast
qed

text \<open>
  C6. For every field, if the normalized value of either record is a substring of the
  normalized value of the other, the result holds no discrepancy for that field, whichever
  record has the longer value.
\<close>

theorem substring_no_discrepancy:
  assumes "py_in (normalize_value (get_or_empty (current_db_data s) fld))
                 (normalize_value (get_or_empty (scraped_data s) fld)) \<or>
           py_in (normalize_value (get_or_empty (scraped_data s) fld))
                 (normalize_value (get_or_empty (current_db_data s) fld))"
  shows "fld \<notin> field ` set (discrepancies (quality_assurance_node s))"
  using assms
  by (auto simp: qa_discrepancies discrepancy_field_iff compare_field_Nil_iff
      is_minor_variation_def)

theorem substring_no_discrepancy_witness:
  "(py_in (normalize_value (get_or_empty (current_db_data
        ((make_initial_state 2002)
           \<lparr>current_db_data := [''name'' \<mapsto> PStr ''Dr. Vikram Singh'', ''city'' \<mapsto> PStr ''Pune''],
            scraped_data := [''name'' \<mapsto> PStr ''Vikram Singh'', ''city'' \<mapsto> PStr ''Mumbai'']\<rparr>))
        ''name''))
      (normalize_value (get_or_empty (scraped_data
        ((make_initial_state 2002)
           \<lparr>current_db_data := [''name'' \<mapsto> PStr ''Dr. Vikram Singh'', ''city'' \<mapsto> PStr ''Pune''],
            scraped_data := [''name'' \<mapsto> PStr ''Vikram Singh'', ''city'' \<mapsto> PStr ''Mumbai'']\<rparr>))
        ''name'')) \<or>
    py_in (normalize_value (get_or_empty (scraped_data
        ((make_initial_state 2002)
           \<lparr>current_db_data := [''name'' \<mapsto> PStr ''Dr. Vikram Singh'', ''city'' \<mapsto> PStr ''Pune''],
            scraped_data := [''name'' \<mapsto> PStr ''Vikram Singh'', ''city'' \<mapsto> PStr ''Mumbai'']\<rparr>))
        ''name''))
      (normalize_value (get_or_empty (current_db_data
        ((make_initial_state 2002)
           \<lparr>current_db_data := [''name'' \<mapsto> PStr ''Dr. Vikram Singh'', ''city'' \<mapsto> PStr ''Pune''],
            scraped_data := [''name'' \<mapsto> PStr ''Vikram Singh'', ''city'' \<mapsto> PStr ''Mumbai'']\<rparr>))
        ''name''))) \<and>
   ''name'' \<notin> field ` set (discrepancies (quality_assurance_node
        ((make_initial_state 2002)
           \<lparr>current_db_data := [''name'' \<mapsto> PStr ''Dr. Vikram Singh'', ''city'' \<mapsto> PStr ''Pune''],
            scraped_data := [''name'' \<mapsto> PStr ''Vikram Singh'', ''city'' \<mapsto> PStr ''Mumbai'']\<rparr>)))"
proof -
  let ?s = "(make_initial_state 2002)
           \<lparr>current_db_data := [''name'' \<mapsto> PStr ''Dr. Vikram Singh'', ''city'' \<mapsto> PStr ''Pune''],
            scraped_data := [''name'' \<mapsto> PStr ''Vikram Singh'', ''city'' \<mapsto> PStr ''Mumbai'']\<rparr>"
  have "py_in (normalize_value (get_or_empty (scraped_data ?s) ''name''))
              (normalize_value (get_or_empty (current_db_data ?s) ''name''))"
    by code_simp
  then have h: "py_in (normalize_value (get_or_empty (current_db_data ?s) ''name''))
                      (normalize_value (get_or_empty (scraped_data ?s) ''name'')) \<or>
                py_in (normalize_value (get_or_empty (scraped_data ?s) ''name''))
                      (normalize_value (get_or_empty (current_db_data ?s) ''name''))"
    by (rule disjI2)
  from substring_no_discrepancy [OF h] h show ?thesis by blast
qed

text \<open>
  C7. For the field \<^verbatim>\<open>address\<close>, if the normalized observed value has exactly one word
  more than the normalized reference value, the result holds no discrepancy for the
  address. The addresses "C-789, Satellite" and "C-789, Satellite Area" give no
  discrepancy. The word count is looked at for the address only: the address is recorded
  exactly when the normalized values differ, neither contains the other and the observed
  value does not have one word more than the reference value, while every other compared
  field is recorded exactly when the normalized values differ and neither contains the
  other, whatever the word counts.
\<close>

theorem address_extra_word_no_discrepancy:
  "(int (length (split (normalize_value (get_or_empty (scraped_data s) ''address'')))) =
      int (length (split (normalize_value (get_or_empty (current_db_data s) ''address'')))) + 1
    \<longrightarrow> ''address'' \<notin> field ` set (discrepancies (quality_assurance_node s))) \<and>
   (''address'' \<in> field ` set (discrepancies (quality_assurance_node s))) =
     (normalize_value (get_or_empty (current_db_data s) ''address'') \<noteq>
        normalize_value (get_or_empty (scraped_data s) ''address'') \<and>
      \<not> py_in (normalize_value (get_or_empty (current_db_data s) ''address''))
              (normalize_value (get_or_empty (scraped_data s) ''address'')) \<and>
      \<not> py_in (normalize_value (get_or_empty (scraped_data s) ''address''))
              (normalize_value (get_or_empty (current_db_data s) ''address'')) \<and>
      int (length (split (normalize_value (get_or_empty (current_db_data s) ''address'')))) \<noteq>
        int (length (split (normalize_value (get_or_empty (scraped_data s) ''address'')))) - 1) \<and>
   (fld \<in> set fields_to_compare \<and> fld \<noteq> ''address'' \<longrightarrow>
      (fld \<in> field ` set (discrepancies (quality_assurance_node s))) =
        (normalize_value (get_or_empty (current_db_data s) fld) \<noteq>
           normalize_value (get_or_empty (scraped_data s) fld) \<and>
         \<not> py_in (normalize_value (get_or_empty (current_db_data s) fld))
                 (normalize_value (get_or_empty (scraped_data s) fld)) \<and>
         \<not> py_in (normalize_value (get_or_empty (scraped_data s) fld))
                 (normalize_value (get_or_empty (current_db_data s) fld)))) \<and>
   find_discrepancies [''address'' \<mapsto> PStr ''C-789, Satellite'']
     [''address'' \<mapsto> PStr ''C-789, Satellite Area''] = [] \<and>
   map field (find_discrepancies [''address'' \<mapsto> PStr ''12 Lake Road'']
     [''address'' \<mapsto> PStr ''14 Lake View Road'']) = [] \<and>
   map field (find_discrepancies [''name'' \<mapsto> PStr ''12 Lake Road'']
     [''name'' \<mapsto> PStr ''14 Lake View Road'']) = [''name'']"
proof -
  have general:
    "int (length (split (normalize_value (get_or_empty (scraped_data s) ''address'')))) =
       int (length (split (normalize_value (get_or_empty (current_db_data s) ''address'')))) + 1
     \<longrightarrow> ''address'' \<notin> field ` set (discrepancies (quality_assurance_node s))"
    by (auto simp: qa_discrepancies discrepancy_field_iff compare_field_Nil_iff
        is_minor_variation_def)
  have address_iff:
    "(''address'' \<in> field ` set (discrepancies (quality_assurance_node s))) =
     (normalize_value (get_or_empty (current_db_data s) ''address'') \<noteq>
        normalize_value (get_or_empty (scraped_data s) ''address'') \<and>
      \<not> py_in (normalize_value (get_or_empty (current_db_data s) ''address''))
              (normalize_value (get_or_empty (scraped_data s) ''address'')) \<and>
      \<not> py_in (normalize_value (get_or_empty (scraped_data s) ''address''))
              (normalize_value (get_or_empty (current_db_data s) ''address'')) \<and>
      int (length (split (normalize_value (get_or_empty (current_db_data s) ''address'')))) \<noteq>
        int (length (split (normalize_value (get_or_empty (scraped_data s) ''address'')))) - 1)"
    by (simp add: qa_discrepancies discrepancy_field_iff compare_field_Nil_iff
        is_minor_variation_def fields_to_compare_def)
  have other_iff:
    "fld \<in> set fields_to_compare \<and> fld \<noteq> ''address'' \<longrightarrow>
      (fld \<in> field ` set (discrepancies (quality_assurance_node s))) =
        (normalize_value (get_or_empty (current_db_data s) fld) \<noteq>
           normalize_value (get_or_empty (scraped_data s) fld) \<and>
         \<not> py_in (normalize_value (get_or_empty (current_db_data s) fld))
                 (normalize_value (get_or_empty (scraped_data s) fld)) \<and>
         \<not> py_in (normalize_value (get_or_empty (scraped_data s) fld))
                 (normalize_value (get_or_empty (current_db_data s) fld)))"
    by (simp add: qa_discrepancies discrepancy_field_iff compare_field_Nil_iff
        is_minor_variation_def)
  have satellite:
    "find_discrepancies [''address'' \<mapsto> PStr ''C-789, Satellite'']
       [''address'' \<mapsto> PStr ''C-789, Satellite Area''] = []"
    by code_simp
  have lake_address:
    "map field (find_discrepancies [''address'' \<mapsto> PStr ''12 Lake Road'']
       [''address'' \<mapsto> PStr ''14 Lake View Road'']) = []"
    by code_simp
  have lake_name:
    "map field (find_discrepancies [''name'' \<mapsto> PStr ''12 Lake Road'']
       [''name'' \<mapsto> PStr ''14 Lake View Road'']) = [''name'']"
    by code_simp
  from general address_iff other_iff satellite lake_address lake_name show ?thesis
    by (intro conjI)
qed

theorem address_extra_word_no_discrepancy_witness:
  "int (length (split (normalize_value (get_or_empty (scraped_data
       ((make_initial_state 7)
          \<lparr>current_db_data := [''address'' \<mapsto> PStr ''12 Lake Road'', ''name'' \<mapsto> PStr ''12 Lake Road''],
           scraped_data := [''address'' \<mapsto> PStr ''14 Lake View Road'', ''name'' \<mapsto> PStr ''14 Lake View Road'']\<rparr>))
       ''address'')))) =
   int (length (split (normalize_value (get_or_empty (current_db_data
       ((make_initial_state 7)
          \<lparr>current_db_data := [''address'' \<mapsto> PStr ''12 Lake Road'', ''name'' \<mapsto> PStr ''12 Lake Road''],
           scraped_data := [''address'' \<mapsto> PStr ''14 Lake View Road'', ''name'' \<mapsto> PStr ''14 Lake View Road'']\<rparr>))
       ''address'')))) + 1 \<and>
   ''name'' \<in> set fields_to_compare \<and> ''name'' \<noteq> ''address'' \<and>
   ''address'' \<notin> field ` set (discrepancies (quality_assurance_node
       ((make_initial_state 7)
          \<lparr>current_db_data := [''address'' \<mapsto> PStr ''12 Lake Road'', ''name'' \<mapsto> PStr ''12 Lake Road''],
           scraped_data := [''address'' \<mapsto> PStr ''14 Lake View Road'', ''name'' \<mapsto> PStr ''14 Lake View Road'']\<rparr>))) \<and>
   ''name'' \<in> field ` set (discrepancies (quality_assurance_node
       ((make_initial_state 7)
          \<lparr>current_db_data := [''address'' \<mapsto> PStr ''12 Lake Road'', ''name'' \<mapsto> PStr ''12 Lake Road''],
           scraped_data := [''address'' \<mapsto> PStr ''14 Lake View Road'', ''name'' \<mapsto> PStr ''14 Lake View Road'']\<rparr>)))"
proof -
  let ?s = "(make_initial_state 7)
          \<lparr>current_db_data := [''address'' \<mapsto> PStr ''12 Lake Road'', ''name'' \<mapsto> PStr ''12 Lake Road''],
           scraped_data := [''address'' \<mapsto> PStr ''14 Lake View Road'', ''name'' \<mapsto> PStr ''14 Lake View Road'']\<rparr>"
  have h: "int (length (split (normalize_value (get_or_empty (scraped_data ?s) ''address'')))) =
           int (length (split (normalize_value (get_or_empty (current_db_data ?s) ''address'')))) + 1"
    by code_simp
  have f: "''name'' \<in> set fields_to_compare" "''name'' \<noteq> ''address''"
    by (simp_all add: fields_to_compare_def)
  have d: "normalize_value (get_or_empty (current_db_data ?s) ''name'') \<noteq>
             normalize_value (get_or_empty (scraped_data ?s) ''name'')"
    by code_simp
  have n1: "\<not> py_in (normalize_value (get_or_empty (current_db_data ?s) ''name''))
                    (normalize_value (get_or_empty (scraped_data ?s) ''name''))"
    by code_simp
  have n2: "\<not> py_in (normalize_value (get_or_empty (scraped_data ?s) ''name''))
                    (normalize_value (get_or_empty (current_db_data ?s) ''name''))"
    by code_simp
  from address_extra_word_no_discrepancy [where s = ?s and fld = "''name''"] h f d n1 n2
  show ?thesis by blast
qed

text \<open>
  C10. For every field, if the value is missing from either record, or the value of
  either record normalizes to the empty string, the result holds no discrepancy for that
  field, whatever the other record holds: a missing value is read as the empty string, and
  the empty string is contained in every string.
\<close>

theorem empty_value_no_discrepancy:
  assumes "current_db_data s fld = None \<or> scraped_data s fld = None \<or>
           normalize_value (get_or_empty (current_db_data s) fld) = [] \<or>
           normalize_value (get_or_empty (scraped_data s) fld) = []"
  shows "fld \<notin> field ` set (discrepancies (quality_assurance_node s))"
proof -
  have missing: "normalize_value (get_or_empty d fld) = []" if "d fld = None" for d :: pydict
    using that by (simp add: get_or_empty_def normalize_value_def lower_def strip_def)
  from assms missing
  have "normalize_value (get_or_empty (current_db_data s) fld) = [] \<or>
        normalize_value (get_or_empty (scraped_data s) fld) = []"
    by blast
  then have "is_minor_variation fld (normalize_value (get_or_empty (current_db_data s) fld))
               (normalize_value (get_or_empty (scraped_data s) fld))"
    by (auto simp: is_minor_variation_def py_in_Nil)
  then show ?thesis
    by (simp add: qa_discrepancies discrepancy_field_iff compare_field_Nil_iff)
qed

theorem empty_value_no_discrepancy_witness:
  "(current_db_data
      ((make_initial_state 9)
         \<lparr>current_db_data := [''phone'' \<mapsto> PStr ''+91-11-2658-3456'', ''npi'' \<mapsto> PStr ''1098765432''],
          scraped_data := [''npi'' \<mapsto> PStr ''1098765433'']\<rparr>) ''phone'' = None \<or>
    scraped_data
      ((make_initial_state 9)
         \<lparr>current_db_data := [''phone'' \<mapsto> PStr ''+91-11-2658-3456'', ''npi'' \<mapsto> PStr ''1098765432''],
          scraped_data := [''npi'' \<mapsto> PStr ''1098765433'']\<rparr>) ''phone'' = None \<or>
    normalize_value (get_or_empty (current_db_data
      ((make_initial_state 9)
         \<lparr>current_db_data := [''phone'' \<mapsto> PStr ''+91-11-2658-3456'', ''npi'' \<mapsto> PStr ''1098765432''],
          scraped_data := [''npi'' \<mapsto> PStr ''1098765433'']\<rparr>)) ''phone'') = [] \<or>
    normalize_value (get_or_empty (scraped_data
      ((make_initial_state 9)
         \<lparr>current_db_data := [''phone'' \<mapsto> PStr ''+91-11-2658-3456'', ''npi'' \<mapsto> PStr ''1098765432''],
          scraped_data := [''npi'' \<mapsto> PStr ''1098765433'']\<rparr>)) ''phone'') = []) \<and>
   ''phone'' \<notin> field ` set (discrepancies (quality_assurance_node
      ((make_initial_state 9)
         \<lparr>current_db_data := [''phone'' \<mapsto> PStr ''+91-11-2658-3456'', ''npi'' \<mapsto> PStr ''1098765432''],
          scraped_data := [''npi'' \<mapsto> PStr ''1098765433'']\<rparr>)))"
proof -
  let ?s = "(make_initial_state 9)
         \<lparr>current_db_data := [''phone'' \<mapsto> PStr ''+91-11-2658-3456'', ''npi'' \<mapsto> PStr ''1098765432''],
          scraped_data := [''npi'' \<mapsto> PStr ''1098765433'']\<rparr>"
  have "scraped_data ?s ''phone'' = None" by simp
  then have h: "current_db_data ?s ''phone'' = None \<or> scraped_data ?s ''phone'' = None \<or>
           normalize_value (get_or_empty (current_db_data ?s) ''phone'') = [] \<or>
           normalize_value (get_or_empty (scraped_data ?s) ''phone'') = []"
    by blast
  from empty_value_no_discrepancy [OF h] h show ?thesis by blast
qed

section \<open>The request handler and the full run\<close>

text \<open>
  C8. A request whose identifier is zero or negative is answered with the exception of
  status 400 and no node of the graph runs: the handler returns before the initial state is
  built. For a positive identifier the graph is invoked: the fetch, scrape and
  quality-assurance nodes run, then the node the conditional edge selects, and the handler
  returns a response.
\<close>

theorem invalid_identifier_rejected:
  "(pid \<le> 0 \<longrightarrow>
      validate_provider pid =
        ([], Inl (HTTPException 400 ''Provider ID must be a positive integer''))) \<and>
   (0 < pid \<longrightarrow>
      validate_provider pid \<noteq>
        ([], Inl (HTTPException 400 ''Provider ID must be a positive integer'')) \<and>
      fst (validate_provider pid) = fst (invoke (make_initial_state pid)) \<and>
      take 3 (fst (validate_provider pid)) =
        [''fetch_provider'', ''scrape_web'', ''quality_assurance''] \<and>
      (\<exists>r. snd (validate_provider pid) = Inr r \<and> success r \<and>
           resp_confidence_score r = confidence_score (snd (invoke (make_initial_state pid)))))"
  by (simp add: validate_provider_def invoke_def Let_def split: prod.splits)

theorem invalid_identifier_rejected_witness:
  "(0::int) \<le> 0 \<and> (-3::int) \<le> 0 \<and> (0::int) < 1003 \<and>
   validate_provider 0 =
     ([], Inl (HTTPException 400 ''Provider ID must be a positive integer'')) \<and>
   validate_provider (-3) =
     ([], Inl (HTTPException 400 ''Provider ID must be a positive integer'')) \<and>
   take 3 (fst (validate_provider 1003)) =
     [''fetch_provider'', ''scrape_web'', ''quality_assurance'']"
proof -
  have bounds: "(0::int) \<le> 0" "(-3::int) \<le> 0" "(0::int) < 1003" by simp_all
  from invalid_identifier_rejected [of 0] invalid_identifier_rejected [of "-3"]
    invalid_identifier_rejected [of 1003] bounds
  show ?thesis by blast
qed

text \<open>
  C9. The claim: in every run the baseline that the fetch node stores reaches the
  quality-assurance node, which computes the score from it. The fetch node does store the
  baseline of the table (75 for an identifier the table does not hold), with the comment
  that it is stored for later use, but under a key \<^verbatim>\<open>AgentState\<close> does not declare. The
  state the quality-assurance node is called with holds no baseline, and the score of
  every run is the one of the formula for a state without baseline. For the identifier
  2002, which the table lists with the baseline 75 among the entries that will be flagged,
  the run records no discrepancy and ends with the score 95 and \<open>verified\<close>.
\<close>

theorem run_loses_baseline:
  "(let b = (if provider_id s = 1001 then 85 else if provider_id s = 1002 then 92
             else if provider_id s = 1003 then 88 else if provider_id s = 2001 then 78
             else if provider_id s = 2002 then 75 else if provider_id s = 3001 then 65
             else if provider_id s = 3002 then 68 else if provider_id s = 4001 then 90
             else 75);
        s1 = fetch_provider_node (declared_keys s);
        s2 = declared_keys (scrape_web_node (declared_keys s1));
        final = snd (invoke s);
        n = int (length (discrepancies final))
    in expected_confidence s1 = Some b \<and>
       expected_confidence s2 = None \<and>
       final = declared_keys (route (declared_keys (quality_assurance_node s2))) \<and>
       confidence_score final =
         (if n = 0 then 95 else if n = 1 then 75 else max 0 (100 - 20 * n))) \<and>
   expected_confidence (fetch_provider_node (make_initial_state 2002)) = Some 75 \<and>
   discrepancies (snd (invoke (make_initial_state 2002))) = [] \<and>
   confidence_score (snd (invoke (make_initial_state 2002))) = 95 \<and>
   status (snd (invoke (make_initial_state 2002))) = verified \<and>
   fst (invoke (make_initial_state 2002)) =
     [''fetch_provider'', ''scrape_web'', ''quality_assurance'', ''update_db'']"
proof -
  define b :: int where
    "b = (if provider_id s = 1001 then 85 else if provider_id s = 1002 then 92
          else if provider_id s = 1003 then 88 else if provider_id s = 2001 then 78
          else if provider_id s = 2002 then 75 else if provider_id s = 3001 then 65
          else if provider_id s = 3002 then 68 else if provider_id s = 4001 then 90
          else 75)"
  define s1 where "s1 = fetch_provider_node (declared_keys s)"
  define s2 where "s2 = declared_keys (scrape_web_node (declared_keys s1))"
  have conf: "confidence (get_mock_provider_data (provider_id s)) = Some b"
    unfolding b_def by (rule mock_confidence)
  have e1: "expected_confidence s1 = Some b"
    by (simp add: s1_def fetch_provider_node_def declared_keys_def Let_def conf)
  have e2: "expected_confidence s2 = None"
    by (simp add: s2_def declared_keys_def)
  have fin: "snd (invoke s) = declared_keys (route (declared_keys (quality_assurance_node s2)))"
    by (simp add: invoke_def Let_def s2_def s1_def declared_keys_def)
  have qa: "confidence_score (quality_assurance_node s2) =
        (if int (length (discrepancies (quality_assurance_node s2))) = 0 then 95
         else if int (length (discrepancies (quality_assurance_node s2))) = 1 then 75
         else max 0 (100 - 20 * int (length (discrepancies (quality_assurance_node s2)))))"
    by (simp add: qa_confidence qa_discrepancies compute_confidence_def e2 Let_def mult.commute)
  have fsc: "confidence_score (snd (invoke s)) =
        (if int (length (discrepancies (snd (invoke s)))) = 0 then 95
         else if int (length (discrepancies (snd (invoke s)))) = 1 then 75
         else max 0 (100 - 20 * int (length (discrepancies (snd (invoke s))))))"
    using qa by (simp add: fin route_confidence route_discrepancies declared_keys_def)
  have general:
    "let b = (if provider_id s = 1001 then 85 else if provider_id s = 1002 then 92
             else if provider_id s = 1003 then 88 else if provider_id s = 2001 then 78
             else if provider_id s = 2002 then 75 else if provider_id s = 3001 then 65
             else if provider_id s = 3002 then 68 else if provider_id s = 4001 then 90
             else 75);
        s1 = fetch_provider_node (declared_keys s);
        s2 = declared_keys (scrape_web_node (declared_keys s1));
        final = snd (invoke s);
        n = int (length (discrepancies final))
    in expected_confidence s1 = Some b \<and>
       expected_confidence s2 = None \<and>
       final = declared_keys (route (declared_keys (quality_assurance_node s2))) \<and>
       confidence_score final =
         (if n = 0 then 95 else if n = 1 then 75 else max 0 (100 - 20 * n))"
    using e1 e2 fin fsc
    unfolding Let_def b_def [symmetric] s1_def [symmetric] s2_def [symmetric] by blast
  have stored: "expected_confidence (fetch_provider_node (make_initial_state 2002)) = Some 75"
    by code_simp
  have none: "discrepancies (snd (invoke (make_initial_state 2002))) = []"
    by code_simp
  have score: "confidence_score (snd (invoke (make_initial_state 2002))) = 95"
    by code_simp
  have outcome: "status (snd (invoke (make_initial_state 2002))) = verified"
    by code_simp
  have ran: "fst (invoke (make_initial_state 2002)) =
     [''fetch_provider'', ''scrape_web'', ''quality_assurance'', ''update_db'']"
    by code_simp
  from general stored none score outcome ran show ?thesis by (intro conjI)
qed

end
